theory Spec2Isabelle
  imports Complex_Main
begin

section \<open>Fracture risk screening calculator (app.py)\<close>

text \<open>
  The program is a single Streamlit script. A form collects the patient's values; on
  submission a linear predictor is accumulated from fixed weights, passed through the
  logistic function, rounded to one decimal and mapped to an interpretation band; one
  record is offered as a CSV download.

  Numbers: a Python \<open>float\<close> is a \<open>real\<close>. The quotient of line 56 is
  computed as the program computes it, every operation rounded to the nearest IEEE
  binary64 number (\<open>fl\<close>), because the rounding to one decimal that follows can turn
  on the last bit of the quotient. The linear predictor and the logistic value are
  computed exactly, \<open>np.exp\<close> being the real exponential, and a value rounded to one
  decimal is the decimal itself: there the binary rounding of the program stays far
  below the tenth that is reported. Python's \<open>int\<close> is \<open>int\<close>.
\<close>

subsection \<open>Form values (lines 46-76)\<close>

datatype sex_t = Female | Male

record patient_input =
  age :: int
  sex :: sex_t
  weight :: real
  height_cm :: real
  femoral_neck_bmd :: real
  prior_fracture :: bool
  parent_hip :: bool
  current_smoker :: bool
  glucocorticoids :: bool
  rheumatoid :: bool
  secondary_osteoporosis :: bool
  alcohol_3_more :: bool
  fall_in_last_year :: bool
  immobility :: bool

text \<open>
  \<open>weight\<close>, \<open>height_cm\<close> and \<open>femoral_neck_bmd\<close> hold the values of the Python
  floats that the widgets return.

  The ranges the input widgets enforce: \<open>min_value\<close> and \<open>max_value\<close> of each
  \<open>number_input\<close>, and for the optional bone density also its default \<open>value=0.0\<close>,
  which lies outside \<open>[0.4, 1.6]\<close> and stands for "not provided".
\<close>

definition in_domain :: "patient_input \<Rightarrow> bool" where
  "in_domain p \<longleftrightarrow>
     40 \<le> age p \<and> age p \<le> 100 \<and>
     30 \<le> weight p \<and> weight p \<le> 200 \<and>
     120 \<le> height_cm p \<and> height_cm p \<le> 220 \<and>
     (femoral_neck_bmd p = 0 \<or> (4/10 \<le> femoral_neck_bmd p \<and> femoral_neck_bmd p \<le> 16/10))"

subsection \<open>Python primitives\<close>

datatype error = ZeroDivisionError | ValueError

text \<open>
  \<open>round(x, 1)\<close>: the nearest multiple of one tenth, a tie going to the even tenth
  (Python rounds half to even, and so does numpy's \<open>float64.__round__\<close>).
\<close>

definition round_half_even :: "real \<Rightarrow> int" where
  "round_half_even y =
     (let f = \<lfloor>y\<rfloor>; d = y - of_int f
      in if d < 1/2 then f
         else if 1/2 < d then f + 1
         else if even f then f else f + 1)"

definition py_round1 :: "real \<Rightarrow> real" where
  "py_round1 x = of_int (round_half_even (x * 10)) / 10"

text \<open>\<open>int(b)\<close> of a boolean, and the truth value of a float in a condition.\<close>

definition py_int :: "bool \<Rightarrow> int" where
  "py_int b = (if b then 1 else 0)"

definition truthy :: "real \<Rightarrow> bool" where
  "truthy x \<longleftrightarrow> x \<noteq> 0"

text \<open>
  IEEE binary64 arithmetic: the result of an operation is the exact result rounded to
  the nearest number with a 53-bit significand, a tie going to the even significand.
  \<open>binade x\<close> is the exponent \<open>e\<close> with \<open>2^e \<le> |x| < 2^(e+1)\<close> and \<open>ulp x\<close> the
  spacing of the doubles there. The exponent range is not modelled (no overflow, no
  subnormal numbers): line 56 stays far inside it for every height and weight the form
  accepts.
\<close>

definition binade :: "real \<Rightarrow> int" where
  "binade x = \<lfloor>log 2 \<bar>x\<bar>\<rfloor>"

definition ulp :: "real \<Rightarrow> real" where
  "ulp x = 2 powi (binade x - 52)"

definition fl :: "real \<Rightarrow> real" where
  "fl x = (if x = 0 then 0 else of_int (round_half_even (x / ulp x)) * ulp x)"

subsection \<open>Body mass index (line 56)\<close>

text \<open>
  \<open>bmi = round(weight / ((height_cm/100)**2), 1)\<close>, on the doubles \<open>weight\<close> and
  \<open>height_cm\<close> that the widgets return. The division by 100, the square and the
  division each round to the nearest double (\<open>** 2\<close> is taken as the correctly rounded
  square). Python raises \<open>ZeroDivisionError\<close> on a zero divisor, where HOL's
  \<open>x / 0\<close> is \<open>0\<close>. \<open>round(q, 1)\<close> then rounds the exact value of the double \<open>q\<close>.
\<close>

definition bmi_unrounded :: "real \<Rightarrow> real \<Rightarrow> error + real" where
  "bmi_unrounded w h =
     (let d = fl ((fl (h / 100))\<^sup>2)
      in if d = 0 then Inl ZeroDivisionError else Inr (fl (w / d)))"

definition bmi_of :: "real \<Rightarrow> real \<Rightarrow> error + real" where
  "bmi_of w h = (case bmi_unrounded w h of Inl e \<Rightarrow> Inl e | Inr q \<Rightarrow> Inr (py_round1 q))"

subsection \<open>Weights (lines 81-94)\<close>

definition AGE_WEIGHT :: real where "AGE_WEIGHT = 0.12"
definition SEX_MALE_WEIGHT :: real where "SEX_MALE_WEIGHT = - 0.10"
definition BMI_WEIGHT :: real where "BMI_WEIGHT = - 0.05"
definition PRIOR_FRACTURE_WEIGHT :: real where "PRIOR_FRACTURE_WEIGHT = 1.2"
definition PARENT_HIP_WEIGHT :: real where "PARENT_HIP_WEIGHT = 0.7"
definition SMOKER_WEIGHT :: real where "SMOKER_WEIGHT = 0.6"
definition GLUCOCORTICOSTEROID_WEIGHT :: real where "GLUCOCORTICOSTEROID_WEIGHT = 0.9"
definition RHEUMATOID_WEIGHT :: real where "RHEUMATOID_WEIGHT = 0.8"
definition SECONDARY_OSTEOPOROSIS_WEIGHT :: real where "SECONDARY_OSTEOPOROSIS_WEIGHT = 0.9"
definition ALCOHOL_WEIGHT :: real where "ALCOHOL_WEIGHT = 0.5"
definition FALL_WEIGHT :: real where "FALL_WEIGHT = 0.8"
definition IMMOBILITY_WEIGHT :: real where "IMMOBILITY_WEIGHT = 1.0"
definition BMD_WEIGHT :: real where "BMD_WEIGHT = - 2.5"
definition BASELINE :: real where "BASELINE = - 6.0"

subsection \<open>Linear predictor (lines 98-113)\<close>

text \<open>
  The score is built by one \<open>score += ...\<close> after another. Lines 98 to 111 are
  \<open>score_risk_factors\<close>; the guarded bone density term of lines 112 and 113 is added
  by \<open>linear_predictor\<close>. The second argument is the value of the variable \<open>bmi\<close>.
\<close>

definition score_risk_factors :: "patient_input \<Rightarrow> real \<Rightarrow> real" where
  "score_risk_factors p bmi =
     (let score = BASELINE;
          score = score + AGE_WEIGHT * of_int (age p - 40);
          score = (if sex p = Male then score + SEX_MALE_WEIGHT else score);
          score = score + BMI_WEIGHT * (bmi - 25);
          score = score + PRIOR_FRACTURE_WEIGHT * of_int (py_int (prior_fracture p));
          score = score + PARENT_HIP_WEIGHT * of_int (py_int (parent_hip p));
          score = score + SMOKER_WEIGHT * of_int (py_int (current_smoker p));
          score = score + GLUCOCORTICOSTEROID_WEIGHT * of_int (py_int (glucocorticoids p));
          score = score + RHEUMATOID_WEIGHT * of_int (py_int (rheumatoid p));
          score = score + SECONDARY_OSTEOPOROSIS_WEIGHT * of_int (py_int (secondary_osteoporosis p));
          score = score + ALCOHOL_WEIGHT * of_int (py_int (alcohol_3_more p));
          score = score + FALL_WEIGHT * of_int (py_int (fall_in_last_year p));
          score = score + IMMOBILITY_WEIGHT * of_int (py_int (immobility p))
      in score)"

text \<open>The condition of line 112: \<open>femoral_neck_bmd and femoral_neck_bmd > 0.0\<close>.\<close>

definition bmd_guard :: "real \<Rightarrow> bool" where
  "bmd_guard b \<longleftrightarrow> truthy b \<and> b > 0"

definition linear_predictor :: "patient_input \<Rightarrow> real \<Rightarrow> real" where
  "linear_predictor p bmi =
     (let score = score_risk_factors p bmi;
          score = (if bmd_guard (femoral_neck_bmd p)
                   then score + BMD_WEIGHT * (femoral_neck_bmd p - 0.7)
                   else score)
      in score)"

subsection \<open>Screening index and interpretation (lines 116-130)\<close>

definition prob_like_of :: "real \<Rightarrow> real" where
  "prob_like_of score = 1 / (1 + exp (- score))"

definition screening_index_of :: "real \<Rightarrow> real" where
  "screening_index_of score = py_round1 (prob_like_of score * 100)"

definition interpretation_of :: "real \<Rightarrow> string" where
  "interpretation_of screening_index =
     (if screening_index < 10 then ''Low (screening only).''
      else if screening_index < 20 then ''Mild (consider bone densitometry if other concerns).''
      else if screening_index < 35 then ''Moderate (consider referral for further assessment / DXA).''
      else ''High (refer for DXA and specialist assessment).'')"

record screening_result =
  bmi :: real
  screening_index :: real
  interpretation_text :: string

text \<open>
  The computation of one submission: the \<open>bmi\<close> of line 56, then the body of
  \<open>if submitted:\<close> up to the interpretation.
\<close>

definition compute_screening :: "patient_input \<Rightarrow> error + screening_result" where
  "compute_screening p =
     (case bmi_of (weight p) (height_cm p) of
        Inl e \<Rightarrow> Inl e
      | Inr b \<Rightarrow>
          (let score = linear_predictor p b;
               si = screening_index_of score
           in Inr \<lparr>bmi = b, screening_index = si, interpretation_text = interpretation_of si\<rparr>))"

subsection \<open>Export record (lines 137-150)\<close>

text \<open>
  What the script takes from outside: the value of \<open>date.today()\<close>, the line
  terminator pandas writes (\<open>os.linesep\<close>) and the text pandas writes for a
  \<open>float64\<close>, which this model leaves open.
\<close>

record date =
  year :: nat
  month :: nat
  day :: nat

record platform =
  today :: date
  linesep :: string
  float_repr :: "real \<Rightarrow> string"

text \<open>
  What is known of a platform: \<open>os.linesep\<close> is LF or CR LF, and the text of a float
  is not empty and made of digits, a point, a sign, an exponent mark or the letters of
  \<open>inf\<close> and \<open>nan\<close>.
\<close>

definition float_chars :: "char list" where
  "float_chars = ''0123456789.e+-infa''"

definition platform_ok :: "platform \<Rightarrow> bool" where
  "platform_ok pf \<longleftrightarrow>
     (linesep pf = [CHR 0x0A] \<or> linesep pf = [CHR 0x0D, CHR 0x0A]) \<and>
     (\<forall>x. float_repr pf x \<noteq> [] \<and> set (float_repr pf x) \<subseteq> set float_chars)"

text \<open>Decimal text of an integer, as \<open>str\<close> gives it.\<close>

definition digit_char :: "nat \<Rightarrow> char" where
  "digit_char d = ''0123456789'' ! d"

fun show_nat :: "nat \<Rightarrow> string" where
  "show_nat n = (if n < 10 then [digit_char n] else show_nat (n div 10) @ [digit_char (n mod 10)])"

declare show_nat.simps [simp del]

definition show_int :: "int \<Rightarrow> string" where
  "show_int i = (if i < 0 then CHR ''-'' # show_nat (nat (- i)) else show_nat (nat i))"

definition zfill :: "nat \<Rightarrow> string \<Rightarrow> string" where
  "zfill k s = replicate (k - length s) CHR ''0'' @ s"

text \<open>\<open>date.isoformat()\<close>: \<open>YYYY-MM-DD\<close>.\<close>

definition isoformat :: "date \<Rightarrow> string" where
  "isoformat d =
     zfill 4 (show_nat (year d)) @ ''-'' @ zfill 2 (show_nat (month d)) @ ''-'' @
     zfill 2 (show_nat (day d))"

definition sex_str :: "sex_t \<Rightarrow> string" where
  "sex_str s = (case s of Female \<Rightarrow> ''Female'' | Male \<Rightarrow> ''Male'')"

text \<open>
  A data frame built from a dictionary of lists: the columns in insertion order, each
  with its name and its values. \<open>pd.DataFrame\<close> raises \<open>ValueError\<close> when the
  lists differ in length.
\<close>

datatype cell = CStr string | CInt int | CFloat real

type_synonym data_frame = "(string \<times> cell list) list"

definition DataFrame :: "(string \<times> cell list) list \<Rightarrow> error + data_frame" where
  "DataFrame cols =
     (case cols of
        [] \<Rightarrow> Inr []
      | (name, cs) # rest \<Rightarrow>
          if list_all (\<lambda>(name', cs'). length cs' = length cs) rest then Inr cols
          else Inl ValueError)"

definition user_data ::
  "date \<Rightarrow> patient_input \<Rightarrow> screening_result \<Rightarrow> (string \<times> cell list) list" where
  "user_data d p r =
     [(''date'', [CStr (isoformat d)]),
      (''age'', [CInt (age p)]),
      (''sex'', [CStr (sex_str (sex p))]),
      (''weight_kg'', [CFloat (weight p)]),
      (''height_cm'', [CFloat (height_cm p)]),
      (''bmi'', [CFloat (bmi r)]),
      (''femoral_neck_bmd'', [CFloat (femoral_neck_bmd p)]),
      (''screening_index'', [CFloat (screening_index r)]),
      (''interpretation'', [CStr (interpretation_text r)])]"

text \<open>
  \<open>DataFrame.to_csv(index=False)\<close> as pandas documents it: a line of column names,
  then one line per row, fields separated by commas, every line ended by the line
  terminator. A text field that holds a comma, a double quote or a line break is put in
  double quotes with its quotes doubled (minimal quoting); numbers are written bare.
\<close>

definition csv_special :: "char list" where
  "csv_special = [CHR '','', CHR 0x22, CHR 0x0A, CHR 0x0D]"

definition needs_quote :: "string \<Rightarrow> bool" where
  "needs_quote s = list_ex (\<lambda>c. c \<in> set csv_special) s"

definition quote_minimal :: "string \<Rightarrow> string" where
  "quote_minimal s =
     (if needs_quote s
      then CHR 0x22 # concat (map (\<lambda>c. if c = CHR 0x22 then [c, c] else [c]) s) @ [CHR 0x22]
      else s)"

definition csv_field :: "(real \<Rightarrow> string) \<Rightarrow> cell \<Rightarrow> string" where
  "csv_field fmt c =
     (case c of CStr s \<Rightarrow> quote_minimal s | CInt i \<Rightarrow> show_int i | CFloat x \<Rightarrow> fmt x)"

fun join_comma :: "string list \<Rightarrow> string" where
  "join_comma [] = []"
| "join_comma [s] = s"
| "join_comma (s # t # ss) = s @ '','' @ join_comma (t # ss)"

definition nrows :: "data_frame \<Rightarrow> nat" where
  "nrows df = (case df of [] \<Rightarrow> 0 | (_, cs) # _ \<Rightarrow> length cs)"

definition csv_header :: "data_frame \<Rightarrow> string" where
  "csv_header df = join_comma (map (\<lambda>(name, cs). quote_minimal name) df)"

definition csv_row :: "(real \<Rightarrow> string) \<Rightarrow> data_frame \<Rightarrow> nat \<Rightarrow> string" where
  "csv_row fmt df i = join_comma (map (\<lambda>(name, cs). csv_field fmt (cs ! i)) df)"

definition csv_lines :: "(real \<Rightarrow> string) \<Rightarrow> data_frame \<Rightarrow> string list" where
  "csv_lines fmt df = csv_header df # map (csv_row fmt df) [0..<nrows df]"

definition to_csv :: "(real \<Rightarrow> string) \<Rightarrow> string \<Rightarrow> data_frame \<Rightarrow> string" where
  "to_csv fmt nl df = concat (map (\<lambda>l. l @ nl) (csv_lines fmt df))"

text \<open>
  \<open>str.encode('utf-8')\<close> on code points below 256: one byte below 128, two bytes
  from there on.
\<close>

definition encode_utf8 :: "string \<Rightarrow> nat list" where
  "encode_utf8 s =
     concat (map (\<lambda>c. let n = (of_char c :: nat)
                       in if n < 128 then [n] else [192 + n div 64, 128 + n mod 64]) s)"

text \<open>A text of ASCII characters only.\<close>

definition is_ascii :: "string \<Rightarrow> bool" where
  "is_ascii s = list_all (\<lambda>c. (of_char c :: nat) < 128) s"

record download =
  data :: "nat list"
  file_name :: string
  mime :: string

record submission =
  result :: screening_result
  frame :: data_frame
  csv_download :: download

text \<open>
  One run of the script with the form submitted: the result, the data frame and the
  arguments of \<open>st.download_button\<close>.
\<close>

definition on_submit :: "platform \<Rightarrow> patient_input \<Rightarrow> error + submission" where
  "on_submit pf p =
     (case compute_screening p of
        Inl e \<Rightarrow> Inl e
      | Inr r \<Rightarrow>
          (case DataFrame (user_data (today pf) p r) of
             Inl e \<Rightarrow> Inl e
           | Inr df \<Rightarrow>
               (let csv = encode_utf8 (to_csv (float_repr pf) (linesep pf) df)
                in Inr \<lparr>result = r, frame = df,
                         csv_download =
                           \<lparr>data = csv, file_name = ''fracture_screening_result.csv'',
                            mime = ''text/csv''\<rparr>\<rparr>)))"

subsection \<open>The predictor in the words of the specification\<close>

text \<open>
  The specification gives the linear predictor as a baseline plus a table of
  contributions. This definition follows that table, with the literal numbers; it is
  compared with \<open>linear_predictor\<close> below.
\<close>

definition spec_linear_predictor :: "patient_input \<Rightarrow> real \<Rightarrow> real" where
  "spec_linear_predictor p b =
     - 6.0
     + 0.12 * (of_int (age p) - 40)
     + (if sex p = Male then - 0.10 else 0)
     + (- 0.05) * (b - 25)
     + (if prior_fracture p then 1.2 else 0)
     + (if parent_hip p then 0.7 else 0)
     + (if current_smoker p then 0.6 else 0)
     + (if glucocorticoids p then 0.9 else 0)
     + (if rheumatoid p then 0.8 else 0)
     + (if secondary_osteoporosis p then 0.9 else 0)
     + (if alcohol_3_more p then 0.5 else 0)
     + (if fall_in_last_year p then 0.8 else 0)
     + (if immobility p then 1.0 else 0)
     + (if femoral_neck_bmd p > 0 then (- 2.5) * (femoral_neck_bmd p - 0.7) else 0)"

subsection \<open>Reference inputs\<close>

text \<open>The two end-to-end examples of the specification.\<close>

definition example1 :: patient_input where
  "example1 =
     \<lparr>age = 65, sex = Female, weight = 70, height_cm = 160, femoral_neck_bmd = 0,
      prior_fracture = False, parent_hip = False, current_smoker = False,
      glucocorticoids = False, rheumatoid = False, secondary_osteoporosis = False,
      alcohol_3_more = False, fall_in_last_year = False, immobility = False\<rparr>"

definition example2 :: patient_input where
  "example2 = example1\<lparr>prior_fracture := True, parent_hip := True\<rparr>"


text \<open>Example 1 at age 99 with all nine risk factors present.\<close>

definition all_factors :: patient_input where
  "all_factors =
     \<lparr>age = 99, sex = Female, weight = 70, height_cm = 160, femoral_neck_bmd = 0,
      prior_fracture = True, parent_hip = True, current_smoker = True,
      glucocorticoids = True, rheumatoid = True, secondary_osteoporosis = True,
      alcohol_3_more = True, fall_in_last_year = True, immobility = True\<rparr>"

text \<open>
  A platform for the examples: a fixed day, the Unix line terminator, and the text of a
  non-negative float that has at most one decimal digit (\<open>70.0\<close>, \<open>27.3\<close>).
\<close>

definition repr_tenths :: "real \<Rightarrow> string" where
  "repr_tenths x = show_int \<lfloor>x\<rfloor> @ ''.'' @ show_nat (nat (\<lfloor>x * 10\<rfloor> mod 10))"

definition example_platform :: platform where
  "example_platform =
     \<lparr>today = \<lparr>year = 2026, month = 3, day = 9\<rparr>, linesep = [CHR 0x0A],
      float_repr = repr_tenths\<rparr>"

section \<open>Auxiliary facts\<close>

lemmas weight_defs =
  AGE_WEIGHT_def SEX_MALE_WEIGHT_def BMI_WEIGHT_def PRIOR_FRACTURE_WEIGHT_def
  PARENT_HIP_WEIGHT_def SMOKER_WEIGHT_def GLUCOCORTICOSTEROID_WEIGHT_def
  RHEUMATOID_WEIGHT_def SECONDARY_OSTEOPOROSIS_WEIGHT_def ALCOHOL_WEIGHT_def
  FALL_WEIGHT_def IMMOBILITY_WEIGHT_def BMD_WEIGHT_def BASELINE_def

subsection \<open>Rounding to one decimal\<close>

lemma round_half_even_eq:
  assumes "of_int k - 1/2 < y" "y < of_int k + 1/2"
  shows "round_half_even y = k"
proof -
  have "\<lfloor>y\<rfloor> = k \<or> \<lfloor>y\<rfloor> = k - 1"
    using assms by linarith
  then show ?thesis
  proof
    assume f: "\<lfloor>y\<rfloor> = k"
    then have "y - of_int \<lfloor>y\<rfloor> < 1/2" using assms by simp
    then show ?thesis using f by (simp add: round_half_even_def Let_def)
  next
    assume f: "\<lfloor>y\<rfloor> = k - 1"
    then have "1/2 < y - of_int \<lfloor>y\<rfloor>" using assms by simp
    then show ?thesis using f by (simp add: round_half_even_def Let_def)
  qed
qed

lemma round_half_even_of_int: "round_half_even (of_int k) = k"
  by (rule round_half_even_eq) simp_all

lemma round_half_even_bounds:
  "of_int (round_half_even y) \<le> y + 1/2" "y - 1/2 \<le> of_int (round_half_even y)"
  unfolding round_half_even_def Let_def by (simp_all; linarith)+

lemma round_half_even_range: "\<lfloor>y\<rfloor> \<le> round_half_even y" "round_half_even y \<le> \<lfloor>y\<rfloor> + 1"
  unfolding round_half_even_def Let_def by simp_all

lemma round_half_even_mono:
  assumes "x \<le> y"
  shows "round_half_even x \<le> round_half_even y"
proof (cases "\<lfloor>x\<rfloor> = \<lfloor>y\<rfloor>")
  case True
  then have "x - of_int \<lfloor>x\<rfloor> \<le> y - of_int \<lfloor>y\<rfloor>" using assms by simp
  then show ?thesis using True
    unfolding round_half_even_def Let_def by auto
next
  case False
  then have "\<lfloor>x\<rfloor> < \<lfloor>y\<rfloor>" using assms floor_mono[OF assms] by linarith
  then have "round_half_even x \<le> \<lfloor>y\<rfloor>" using round_half_even_range(2)[of x] by linarith
  then show ?thesis using round_half_even_range(1)[of y] by linarith
qed

lemma py_round1_eq:
  assumes "of_int k / 10 - 1/20 < x" "x < of_int k / 10 + 1/20"
  shows "py_round1 x = of_int k / 10"
proof -
  have "round_half_even (x * 10) = k"
    by (rule round_half_even_eq) (use assms in \<open>simp_all add: field_simps\<close>)
  then show ?thesis by (simp add: py_round1_def)
qed

lemma py_round1_mono: "x \<le> y \<Longrightarrow> py_round1 x \<le> py_round1 y"
  unfolding py_round1_def using round_half_even_mono[of "x * 10" "y * 10"]
  by (simp add: divide_right_mono)

lemma py_round1_tenth: "py_round1 (of_int k / 10) = of_int k / 10"
  by (simp add: py_round1_def round_half_even_of_int)

lemma py_round1_0: "py_round1 0 = 0"
  using py_round1_tenth[of 0] by simp

lemma py_round1_100: "py_round1 100 = 100"
  using py_round1_tenth[of 1000] by simp

lemma py_round1_nearest:
  "\<exists>k::int. py_round1 x = of_int k / 10 \<and> \<bar>py_round1 x - x\<bar> \<le> 1 / 20 \<and>
     (\<bar>py_round1 x - x\<bar> = 1 / 20 \<longrightarrow> even k)"
proof -
  let ?k = "round_half_even (x * 10)"
  have b: "\<bar>of_int ?k - x * 10\<bar> \<le> 1 / 2"
    using round_half_even_bounds[of "x * 10"] by linarith
  have d: "py_round1 x - x = (of_int ?k - x * 10) / 10"
    by (simp add: py_round1_def field_simps)
  have 1: "\<bar>py_round1 x - x\<bar> \<le> 1 / 20"
    unfolding d using b by simp
  have 2: "even ?k" if "\<bar>py_round1 x - x\<bar> = 1 / 20"
  proof -
    have t: "\<bar>of_int ?k - x * 10\<bar> = 1 / 2" using that unfolding d by simp
    show ?thesis
    proof (cases "x * 10 - of_int \<lfloor>x * 10\<rfloor> = 1 / 2")
      case True
      then show ?thesis by (simp add: round_half_even_def Let_def)
    next
      case False
      have f: "0 \<le> x * 10 - of_int \<lfloor>x * 10\<rfloor>" "x * 10 - of_int \<lfloor>x * 10\<rfloor> < 1"
        by linarith+
      have "\<bar>of_int ?k - x * 10\<bar> \<noteq> 1 / 2"
        using False f unfolding round_half_even_def Let_def
        by (auto split: if_splits)
      with t show ?thesis by simp
    qed
  qed
  from 1 2 show ?thesis
    by (intro exI[of _ ?k]) (simp add: py_round1_def)
qed

subsection \<open>Rounding to the nearest double\<close>

lemma binade_bounds:
  assumes "x \<noteq> 0"
  shows "2 powi binade x \<le> \<bar>x\<bar>" and "\<bar>x\<bar> < 2 powi (binade x + 1)"
proof -
  have pos: "0 < \<bar>x\<bar>" using assms by simp
  have "2 powr real_of_int (binade x) \<le> \<bar>x\<bar> \<and> \<bar>x\<bar> < 2 powr (real_of_int (binade x) + 1)"
    using floor_log_eq_powr_iff[of "\<bar>x\<bar>" 2 "binade x"] pos by (simp add: binade_def)
  moreover have "real_of_int (binade x) + 1 = real_of_int (binade x + 1)" by simp
  ultimately show "2 powi binade x \<le> \<bar>x\<bar>" and "\<bar>x\<bar> < 2 powi (binade x + 1)"
    by (simp_all only: powr_real_of_int'[of 2, simplified])
qed

lemma binade_eqI:
  assumes "2 powi e \<le> \<bar>x\<bar>" and "\<bar>x\<bar> < 2 powi (e + 1)"
  shows "binade x = e"
proof -
  have pos: "0 < \<bar>x\<bar>"
    using assms(1) zero_less_power_int[of "2::real" e] by linarith
  have "real_of_int e + 1 = real_of_int (e + 1)" by simp
  then have "2 powr real_of_int e \<le> \<bar>x\<bar> \<and> \<bar>x\<bar> < 2 powr (real_of_int e + 1)"
    using assms by (simp only: powr_real_of_int'[of 2, simplified])
  then show ?thesis
    using floor_log_eq_powr_iff[of "\<bar>x\<bar>" 2 e] pos by (simp add: binade_def)
qed

lemma fl_eqI:
  assumes "2 powi e \<le> \<bar>x\<bar>" and "\<bar>x\<bar> < 2 powi (e + 1)"
    and "of_int m - 1/2 < x / 2 powi (e - 52)" and "x / 2 powi (e - 52) < of_int m + 1/2"
    and "y = of_int m * 2 powi (e - 52)"
  shows "fl x = y"
proof -
  have e: "binade x = e" using assms(1,2) by (rule binade_eqI)
  have "0 < \<bar>x\<bar>" using assms(1) zero_less_power_int[of "2::real" e] by linarith
  then have "x \<noteq> 0" by simp
  moreover have "round_half_even (x / 2 powi (e - 52)) = m"
    using assms(3,4) by (rule round_half_even_eq)
  ultimately show ?thesis by (simp add: fl_def ulp_def e assms(5))
qed

lemma ulp_pos: "0 < ulp x"
  by (simp add: ulp_def)

lemma ulp_le: "x \<noteq> 0 \<Longrightarrow> ulp x \<le> \<bar>x\<bar> / 2 ^ 52"
proof -
  assume "x \<noteq> 0"
  then have "2 powi binade x \<le> \<bar>x\<bar>" by (rule binade_bounds)
  moreover have "ulp x = 2 powi binade x / 2 ^ 52"
    by (simp add: ulp_def power_int_diff)
  ultimately show ?thesis by (simp add: divide_right_mono)
qed

lemma fl_error: "\<bar>fl x - x\<bar> \<le> \<bar>x\<bar> / 2 ^ 53"
proof (cases "x = 0")
  case True
  then show ?thesis by (simp add: fl_def)
next
  case False
  let ?u = "ulp x"
  let ?m = "real_of_int (round_half_even (x / ?u))"
  have "\<bar>?m - x / ?u\<bar> \<le> 1/2"
    using round_half_even_bounds[of "x / ?u"] by linarith
  then have "\<bar>?m - x / ?u\<bar> * ?u \<le> (1/2) * ?u"
    using ulp_pos[of x] by (intro mult_right_mono) simp_all
  moreover have "\<bar>?m - x / ?u\<bar> * ?u = \<bar>?m * ?u - x\<bar>"
  proof -
    have "\<bar>?m - x / ?u\<bar> * ?u = \<bar>(?m - x / ?u) * ?u\<bar>"
      using ulp_pos[of x] by (simp add: abs_mult)
    also have "(?m - x / ?u) * ?u = ?m * ?u - x"
      using ulp_pos[of x] by (simp add: field_simps)
    finally show ?thesis .
  qed
  ultimately have "\<bar>fl x - x\<bar> \<le> ?u / 2"
    using False by (simp add: fl_def)
  also have "?u / 2 \<le> (\<bar>x\<bar> / 2 ^ 52) / 2"
    using ulp_le[OF False] by simp
  finally show ?thesis by simp
qed

lemma fl_eq_0_iff: "fl x = 0 \<longleftrightarrow> x = 0"
proof
  assume z: "fl x = 0"
  show "x = 0"
  proof (rule ccontr)
    assume "x \<noteq> 0"
    then have "0 < \<bar>x\<bar>" by simp
    moreover have "\<bar>x\<bar> \<le> \<bar>x\<bar> / 2 ^ 53"
      using fl_error[of x] z by simp
    ultimately show False by simp
  qed
qed (simp add: fl_def)

subsection \<open>Bounds on the exponential\<close>

lemma exp_taylor_lower:
  fixes x :: real
  assumes "0 \<le> x"
  shows "(\<Sum>m<n. x ^ m / fact m) \<le> exp x"
proof -
  obtain t where "exp x = (\<Sum>m<n. x ^ m / fact m) + (exp t / fact n) * x ^ n"
    using Maclaurin_exp_le[of x n] by blast
  moreover have "0 \<le> (exp t / fact n) * x ^ n"
    using assms by simp
  ultimately show ?thesis by linarith
qed

lemma exp_taylor_upper:
  fixes x :: real
  assumes "0 \<le> x" and "exp x \<le> c"
  shows "exp x \<le> (\<Sum>m<n. x ^ m / fact m) + c * x ^ n / fact n"
proof -
  obtain t where t: "\<bar>t\<bar> \<le> \<bar>x\<bar>"
    and e: "exp x = (\<Sum>m<n. x ^ m / fact m) + (exp t / fact n) * x ^ n"
    using Maclaurin_exp_le[of x n] by blast
  have "t \<le> x" using t assms by linarith
  then have "exp t \<le> c" using assms(2) by (meson exp_le_cancel_iff order_trans)
  then have "exp t * x ^ n \<le> c * x ^ n"
    using assms(1) by (simp add: mult_right_mono)
  then have "(exp t / fact n) * x ^ n \<le> c * x ^ n / fact n"
    by (simp add: divide_right_mono)
  with e show ?thesis by linarith
qed

lemma exp_small_le_3: "x \<le> 1 \<Longrightarrow> exp x \<le> (3::real)"
  using exp_le by (meson exp_le_cancel_iff order_trans)

lemma taylor7: "(\<Sum>m<7. x ^ m / fact m) = 1 + x + x^2/2 + x^3/6 + x^4/24 + x^5/120 + x^6/720" for x :: real
  by (simp add: eval_nat_numeral)

lemma exp_lower_pow:
  fixes x :: real
  assumes "0 \<le> x" "0 \<le> L"
    and "L \<le> 1 + x + x^2/2 + x^3/6 + x^4/24 + x^5/120 + x^6/720"
    and "c < L ^ k" "y = of_nat k * x"
  shows "c < exp y"
proof -
  have "L \<le> exp x"
    using exp_taylor_lower[OF assms(1), of 7] assms(3) unfolding taylor7 by linarith
  then have "L ^ k \<le> exp x ^ k" using assms(2) by (rule power_mono)
  also have "exp x ^ k = exp y" unfolding assms(5) by (rule exp_of_nat_mult[symmetric])
  finally show ?thesis using assms(4) by linarith
qed

lemma exp_upper_pow:
  fixes x :: real
  assumes "0 \<le> x" "x \<le> 1"
    and "1 + x + x^2/2 + x^3/6 + x^4/24 + x^5/120 + x^6/720 + 3 * x^7 / 5040 \<le> U"
    and "U ^ k < c" "y = of_nat k * x"
  shows "exp y < c"
proof -
  have "fact 7 = (5040 :: real)" by (simp add: fact_numeral)
  then have "exp x \<le> U"
    using exp_taylor_upper[OF assms(1) exp_small_le_3[OF assms(2)], of 7] assms(3)
    unfolding taylor7 by simp
  then have "exp x ^ k \<le> U ^ k" by (intro power_mono) simp_all
  moreover have "exp x ^ k = exp y" unfolding assms(5) by (rule exp_of_nat_mult[symmetric])
  ultimately show ?thesis using assms(4) by linarith
qed

lemma exp_3115_lower: "(2253 / 100 :: real) < exp (3115 / 1000)"
  by (rule exp_lower_pow[where x = "623/1000" and k = 5 and L = "18645/10000"])
     (simp_all add: power_divide)

lemma exp_3115_upper: "exp (3115 / 1000) < (2309638 / 100000 :: real)"
  by (rule exp_upper_pow[where x = "623/1000" and k = 5 and U = "18646/10000"])
     (simp_all add: power_divide)

lemma exp_1215_lower: "(33574 / 10000 :: real) < exp (1215 / 1000)"
  by (rule exp_lower_pow[where x = "243/1000" and k = 5 and L = "12750/10000"])
     (simp_all add: power_divide)

lemma exp_1215_upper: "exp (1215 / 1000) < (33763 / 10000 :: real)"
  by (rule exp_upper_pow[where x = "243/1000" and k = 5 and U = "12751/10000"])
     (simp_all add: power_divide)

lemma screening_index_of_eqI:
  assumes "0 < lo" "lo < exp (- s)" "exp (- s) < hi"
    and "100 < (of_int k / 10 + 1/20) * (1 + lo)"
    and "(of_int k / 10 - 1/20) * (1 + hi) < 100"
  shows "screening_index_of s = of_int k / 10"
proof -
  let ?e = "exp (- s)"
  have pos: "0 < 1 + ?e" by (simp add: add_pos_pos)
  have up: "100 < (of_int k / 10 + 1/20) * (1 + ?e)"
  proof -
    have "0 \<le> of_int k / 10 + (1/20 :: real)"
      using assms(1,4) by (smt (verit) mult_nonneg_nonpos2 mult_less_0_iff)
    then have "(of_int k / 10 + 1/20) * (1 + lo) \<le> (of_int k / 10 + 1/20) * (1 + ?e)"
      using assms(2) by (intro mult_left_mono) simp_all
    with assms(4) show ?thesis by linarith
  qed
  have lw: "(of_int k / 10 - 1/20) * (1 + ?e) < 100"
  proof (cases "0 \<le> of_int k / 10 - (1/20 :: real)")
    case True
    then have "(of_int k / 10 - 1/20) * (1 + ?e) \<le> (of_int k / 10 - 1/20) * (1 + hi)"
      using assms(3) by (intro mult_left_mono) simp_all
    with assms(5) show ?thesis by linarith
  next
    case False
    then have "(of_int k / 10 - 1/20) * (1 + ?e) < 0"
      using pos by (simp add: mult_less_0_iff)
    then show ?thesis by (rule less_trans) simp
  qed
  have "py_round1 (prob_like_of s * 100) = of_int k / 10"
  proof (rule py_round1_eq)
    show "of_int k / 10 - 1 / 20 < prob_like_of s * 100"
      using lw pos by (simp add: prob_like_of_def field_simps)
    show "prob_like_of s * 100 < of_int k / 10 + 1 / 20"
      using up pos by (simp add: prob_like_of_def field_simps)
  qed
  then show ?thesis by (simp add: screening_index_of_def)
qed

subsection \<open>The reference inputs evaluated\<close>

lemma bmi_unrounded_Inr:
  "h \<noteq> 0 \<Longrightarrow> bmi_unrounded w h = Inr (fl (w / fl ((fl (h / 100))\<^sup>2)))"
  by (simp add: bmi_unrounded_def Let_def fl_eq_0_iff)


lemma bmi_of_Inr:
  "h \<noteq> 0 \<Longrightarrow> bmi_of w h = Inr (py_round1 (fl (w / fl ((fl (h / 100))\<^sup>2))))"
  by (simp add: bmi_of_def bmi_unrounded_Inr)

lemma bmi_unrounded_eqI:
  assumes "fl (h / 100) = a" and "fl (a\<^sup>2) = d" and "d \<noteq> 0" and "fl (w / d) = q"
  shows "bmi_unrounded w h = Inr q"
  using assms by (simp add: bmi_unrounded_def Let_def)

lemma bmi_of_eqI:
  assumes "bmi_unrounded w h = Inr q"
    and "of_int k / 10 - 1 / 20 < q" and "q < of_int k / 10 + 1 / 20"
  shows "bmi_of w h = Inr (of_int k / 10)"
  using py_round1_eq[OF assms(2,3)] by (simp add: bmi_of_def assms(1))




text \<open>
  Line 56 on doubles. For 70 kg and 160 cm the double quotient is 27.343749999999996.
  For 48 kg and 160 cm the exact quotient 18.75 is a tie, but \<open>1.6 ** 2\<close> is the
  double 2.5600000000000005 and the double quotient 18.749999999999996 rounds to 18.7;
  for 110.25 kg and 140 cm the exact quotient 56.25 is a tie and the double quotient
  56.25000000000001 rounds to 56.3.
\<close>

lemma fl_160_100: "fl (160 / 100) = 7205759403792794 / 2 ^ 52"
  by (rule fl_eqI[where e = 0 and m = 7205759403792794]) simp_all

lemma fl_160_100_sq: "fl ((7205759403792794 / 2 ^ 52)\<^sup>2) = 5764607523034236 / 2 ^ 51"
  by (rule fl_eqI[where e = 1 and m = 5764607523034236]) (simp_all add: power_divide)

lemma bmi_unrounded_70_160: "bmi_unrounded 70 160 = Inr (7696581394431999 / 2 ^ 48)"
proof (rule bmi_unrounded_eqI[OF fl_160_100 fl_160_100_sq])
  show "fl (70 / (5764607523034236 / 2 ^ 51)) = 7696581394431999 / 2 ^ 48"
    by (rule fl_eqI[where e = 4 and m = 7696581394431999]) simp_all
qed simp

lemma bmi_of_70_160: "bmi_of 70 160 = Inr (273 / 10)"
  using bmi_of_eqI[OF bmi_unrounded_70_160, of 273] by simp

lemma bmi_unrounded_48_160: "bmi_unrounded 48 160 = Inr (5277655813324799 / 2 ^ 48)"
proof (rule bmi_unrounded_eqI[OF fl_160_100 fl_160_100_sq])
  show "fl (48 / (5764607523034236 / 2 ^ 51)) = 5277655813324799 / 2 ^ 48"
    by (rule fl_eqI[where e = 4 and m = 5277655813324799]) simp_all
qed simp

lemma bmi_of_48_160: "bmi_of 48 160 = Inr (187 / 10)"
  using bmi_of_eqI[OF bmi_unrounded_48_160, of 187] by simp

lemma bmi_unrounded_11025_140:
  "bmi_unrounded (441 / 4) 140 = Inr (7916483719987201 / 2 ^ 47)"
proof (rule bmi_unrounded_eqI)
  show "fl (140 / 100) = 6305039478318694 / 2 ^ 52"
    by (rule fl_eqI[where e = 0 and m = 6305039478318694]) simp_all
  show "fl ((6305039478318694 / 2 ^ 52)\<^sup>2) = 8827055269646171 / 2 ^ 52"
    by (rule fl_eqI[where e = 0 and m = 8827055269646171]) (simp_all add: power_divide)
  show "fl (441 / 4 / (8827055269646171 / 2 ^ 52)) = 7916483719987201 / 2 ^ 47"
    by (rule fl_eqI[where e = 5 and m = 7916483719987201]) simp_all
qed simp

lemma bmi_of_11025_140: "bmi_of (441 / 4) 140 = Inr (563 / 10)"
  using bmi_of_eqI[OF bmi_unrounded_11025_140, of 563] by simp

lemma linear_predictor_example1: "linear_predictor example1 (273 / 10) = - 3115 / 1000"
  by (simp add: linear_predictor_def score_risk_factors_def example1_def weight_defs
      bmd_guard_def truthy_def py_int_def Let_def)

lemma linear_predictor_example2: "linear_predictor example2 (273 / 10) = - 1215 / 1000"
  by (simp add: linear_predictor_def score_risk_factors_def example1_def example2_def weight_defs
      bmd_guard_def truthy_def py_int_def Let_def)

lemma screening_index_example1: "screening_index_of (- 3115 / 1000) = 42 / 10"
proof -
  have "screening_index_of (- 3115 / 1000) = of_int 42 / 10"
    by (rule screening_index_of_eqI[where lo = "2253 / 100" and hi = "2309638 / 100000"])
       (use exp_3115_lower exp_3115_upper in simp_all)
  then show ?thesis by simp
qed

lemma screening_index_example2: "screening_index_of (- 1215 / 1000) = 229 / 10"
proof -
  have "screening_index_of (- 1215 / 1000) = of_int 229 / 10"
    by (rule screening_index_of_eqI[where lo = "33574 / 10000" and hi = "33763 / 10000"])
       (use exp_1215_lower exp_1215_upper in simp_all)
  then show ?thesis by simp
qed

lemma compute_example1:
  "compute_screening example1 =
     Inr \<lparr>bmi = 273 / 10, screening_index = 42 / 10,
          interpretation_text = ''Low (screening only).''\<rparr>"
proof -
  have "bmi_of (weight example1) (height_cm example1) = Inr (273 / 10)"
    using bmi_of_70_160 by (simp add: example1_def)
  moreover have "screening_index_of (linear_predictor example1 (273 / 10)) = 42 / 10"
    by (simp only: linear_predictor_example1 screening_index_example1)
  ultimately show ?thesis
    by (simp add: compute_screening_def interpretation_of_def Let_def)
qed

lemma compute_example2:
  "compute_screening example2 =
     Inr \<lparr>bmi = 273 / 10, screening_index = 229 / 10,
          interpretation_text = ''Moderate (consider referral for further assessment / DXA).''\<rparr>"
proof -
  have "bmi_of (weight example2) (height_cm example2) = Inr (273 / 10)"
    using bmi_of_70_160 by (simp add: example1_def example2_def)
  moreover have "screening_index_of (linear_predictor example2 (273 / 10)) = 229 / 10"
    by (simp only: linear_predictor_example2 screening_index_example2)
  ultimately show ?thesis
    by (simp add: compute_screening_def interpretation_of_def Let_def)
qed

text \<open>
  An input whose exact quotient is a tie (110.25 kg, 140 cm: 56.25), at age 78 with a
  fall in the last year: the double quotient rounds to 56.3 and the result is 9.9, "Low".
\<close>

lemma exp_2205_lower: "(906 / 100 :: real) < exp (2205 / 1000)"
  by (rule exp_lower_pow[where x = "441/1000" and k = 5 and L = "15542/10000"])
     (simp_all add: power_divide)

lemma exp_2205_upper: "exp (2205 / 1000) < (915 / 100 :: real)"
  by (rule exp_upper_pow[where x = "441/1000" and k = 5 and U = "15543/10000"])
     (simp_all add: power_divide)

lemma screening_index_tie_input: "screening_index_of (- 2205 / 1000) = 99 / 10"
proof -
  have "screening_index_of (- 2205 / 1000) = of_int 99 / 10"
    by (rule screening_index_of_eqI[where lo = "906 / 100" and hi = "915 / 100"])
       (use exp_2205_lower exp_2205_upper in simp_all)
  then show ?thesis by simp
qed

lemma compute_tie_input:
  "compute_screening
     (example1\<lparr>age := 78, weight := 441 / 4, height_cm := 140, fall_in_last_year := True\<rparr>) =
     Inr \<lparr>bmi = 563 / 10, screening_index = 99 / 10,
          interpretation_text = ''Low (screening only).''\<rparr>"
proof -
  let ?p = "example1\<lparr>age := 78, weight := 441 / 4, height_cm := 140, fall_in_last_year := True\<rparr>"
  have "bmi_of (weight ?p) (height_cm ?p) = Inr (563 / 10)"
    using bmi_of_11025_140 by simp
  moreover have "linear_predictor ?p (563 / 10) = - 2205 / 1000"
    by (simp add: linear_predictor_def score_risk_factors_def example1_def weight_defs
        bmd_guard_def truthy_def py_int_def Let_def)
  then have "screening_index_of (linear_predictor ?p (563 / 10)) = 99 / 10"
    by (simp only: screening_index_tie_input)
  ultimately show ?thesis
    by (simp add: compute_screening_def interpretation_of_def Let_def)
qed

subsection \<open>The computation unfolded\<close>

lemma in_domain_height: "in_domain p \<Longrightarrow> height_cm p \<noteq> 0"
  by (auto simp: in_domain_def)

lemma bmd_guard_iff: "bmd_guard b \<longleftrightarrow> 0 < b"
  by (auto simp: bmd_guard_def truthy_def)

lemma score_risk_factors_sum:
  "score_risk_factors p b =
     - 6.0 + 0.12 * (of_int (age p) - 40) + (if sex p = Male then - 0.10 else 0)
     + (- 0.05) * (b - 25)
     + (if prior_fracture p then 1.2 else 0)
     + (if parent_hip p then 0.7 else 0)
     + (if current_smoker p then 0.6 else 0)
     + (if glucocorticoids p then 0.9 else 0)
     + (if rheumatoid p then 0.8 else 0)
     + (if secondary_osteoporosis p then 0.9 else 0)
     + (if alcohol_3_more p then 0.5 else 0)
     + (if fall_in_last_year p then 0.8 else 0)
     + (if immobility p then 1.0 else 0)"
  by (simp add: score_risk_factors_def weight_defs py_int_def Let_def)

lemma linear_predictor_split:
  "linear_predictor p b =
     score_risk_factors p b +
     (if 0 < femoral_neck_bmd p then BMD_WEIGHT * (femoral_neck_bmd p - 0.7) else 0)"
  by (simp add: linear_predictor_def bmd_guard_iff Let_def)

lemma linear_predictor_spec: "linear_predictor p b = spec_linear_predictor p b"
  unfolding linear_predictor_split score_risk_factors_sum spec_linear_predictor_def
  by (simp add: BMD_WEIGHT_def)

lemma compute_screening_Inr:
  assumes "height_cm p \<noteq> 0"
  shows "compute_screening p =
    Inr \<lparr>bmi = py_round1 (fl (weight p / fl ((fl (height_cm p / 100))\<^sup>2))),
         screening_index =
           screening_index_of (linear_predictor p (py_round1 (fl (weight p / fl ((fl (height_cm p / 100))\<^sup>2))))),
         interpretation_text =
           interpretation_of
             (screening_index_of (linear_predictor p (py_round1 (fl (weight p / fl ((fl (height_cm p / 100))\<^sup>2))))))\<rparr>"
  using assms by (simp add: compute_screening_def bmi_of_Inr Let_def)

lemma compute_screening_InrD:
  assumes "compute_screening p = Inr r"
  shows "bmi_of (weight p) (height_cm p) = Inr (bmi r)"
    and "screening_index r = screening_index_of (linear_predictor p (bmi r))"
    and "interpretation_text r = interpretation_of (screening_index r)"
  using assms by (auto simp: compute_screening_def Let_def split: sum.splits)

lemma in_domain_example1: "in_domain example1"
  by (simp add: in_domain_def example1_def)

lemma score_risk_factors_bmd_update:
  "score_risk_factors (p\<lparr>femoral_neck_bmd := x\<rparr>) b = score_risk_factors p b"
  by (simp add: score_risk_factors_def)

lemma prob_like_of_range: "0 < prob_like_of s" "prob_like_of s < 1"
proof -
  have "0 < exp (- s)" by simp
  then show "0 < prob_like_of s" "prob_like_of s < 1"
    unfolding prob_like_of_def by (simp_all add: add_pos_pos)
qed

lemma screening_index_of_range:
  "0 \<le> screening_index_of s" "screening_index_of s \<le> 100"
proof -
  have "0 \<le> prob_like_of s * 100" "prob_like_of s * 100 \<le> 100"
    using prob_like_of_range[of s] by simp_all
  then have "py_round1 0 \<le> py_round1 (prob_like_of s * 100)"
    and "py_round1 (prob_like_of s * 100) \<le> py_round1 100"
    by (simp_all add: py_round1_mono)
  then show "0 \<le> screening_index_of s" "screening_index_of s \<le> 100"
    by (simp_all add: screening_index_of_def py_round1_0 py_round1_100)
qed

lemma screening_index_of_tenths: "\<exists>k::int. screening_index_of s = of_int k / 10"
  unfolding screening_index_of_def py_round1_def by blast

subsection \<open>Rounding order and monotonicity\<close>










lemma linear_predictor_age:
  "linear_predictor (p\<lparr>age := a\<rparr>) b = linear_predictor (p\<lparr>age := 0\<rparr>) b + 0.12 * of_int a"
  by (simp add: linear_predictor_spec spec_linear_predictor_def field_simps)

lemma linear_predictor_age_less:
  "a < a' \<Longrightarrow> linear_predictor (p\<lparr>age := a\<rparr>) b < linear_predictor (p\<lparr>age := a'\<rparr>) b"
  by (simp add: linear_predictor_age[where a = a] linear_predictor_age[where a = a'])

lemma linear_predictor_bmd_less:
  "0 < x \<Longrightarrow> x < x' \<Longrightarrow>
     linear_predictor (p\<lparr>femoral_neck_bmd := x'\<rparr>) b <
     linear_predictor (p\<lparr>femoral_neck_bmd := x\<rparr>) b"
  by (simp add: linear_predictor_split score_risk_factors_bmd_update BMD_WEIGHT_def)

lemma linear_predictor_flags:
  "linear_predictor (p\<lparr>prior_fracture := False\<rparr>) b < linear_predictor (p\<lparr>prior_fracture := True\<rparr>) b"
  "linear_predictor (p\<lparr>parent_hip := False\<rparr>) b < linear_predictor (p\<lparr>parent_hip := True\<rparr>) b"
  "linear_predictor (p\<lparr>current_smoker := False\<rparr>) b < linear_predictor (p\<lparr>current_smoker := True\<rparr>) b"
  "linear_predictor (p\<lparr>glucocorticoids := False\<rparr>) b < linear_predictor (p\<lparr>glucocorticoids := True\<rparr>) b"
  "linear_predictor (p\<lparr>rheumatoid := False\<rparr>) b < linear_predictor (p\<lparr>rheumatoid := True\<rparr>) b"
  "linear_predictor (p\<lparr>secondary_osteoporosis := False\<rparr>) b <
     linear_predictor (p\<lparr>secondary_osteoporosis := True\<rparr>) b"
  "linear_predictor (p\<lparr>alcohol_3_more := False\<rparr>) b < linear_predictor (p\<lparr>alcohol_3_more := True\<rparr>) b"
  "linear_predictor (p\<lparr>fall_in_last_year := False\<rparr>) b <
     linear_predictor (p\<lparr>fall_in_last_year := True\<rparr>) b"
  "linear_predictor (p\<lparr>immobility := False\<rparr>) b < linear_predictor (p\<lparr>immobility := True\<rparr>) b"
  by (simp_all add: linear_predictor_spec spec_linear_predictor_def)

lemma prob_like_of_less: "s < s' \<Longrightarrow> prob_like_of s < prob_like_of s'"
proof -
  assume "s < s'"
  then have "exp (- s') < exp (- s)" by simp
  moreover have "0 < 1 + exp (- s')" by (simp add: add_pos_pos)
  ultimately show ?thesis
    unfolding prob_like_of_def by (simp add: divide_strict_left_mono add_pos_pos)
qed

lemma screening_index_of_mono: "s \<le> s' \<Longrightarrow> screening_index_of s \<le> screening_index_of s'"
proof -
  assume "s \<le> s'"
  then have "prob_like_of s \<le> prob_like_of s'"
    using prob_like_of_less[of s s'] by (cases "s = s'") simp_all
  then show ?thesis
    unfolding screening_index_of_def by (intro py_round1_mono) simp
qed

lemma screening_index_of_100:
  assumes "1999 < exp s"
  shows "screening_index_of s = 100"
proof -
  have "inverse (exp s) < inverse 1999"
    using assms by (intro less_imp_inverse_less) simp_all
  then have hi: "exp (- s) < 1 / 1999" by (simp add: exp_minus inverse_eq_divide)
  have pos: "0 < 1 + exp (- s)" by (simp add: add_pos_pos)
  have "py_round1 (prob_like_of s * 100) = of_int 1000 / 10"
  proof (rule py_round1_eq)
    have "(1999 / 20) * (1 + exp (- s)) < 100" using hi by simp
    then show "real_of_int 1000 / 10 - 1 / 20 < prob_like_of s * 100"
      using pos by (simp add: prob_like_of_def field_simps)
    show "prob_like_of s * 100 < real_of_int 1000 / 10 + 1 / 20"
      using prob_like_of_range(2)[of s] by simp
  qed
  then show ?thesis by (simp add: screening_index_of_def)
qed

lemma exp_8365_lower: "(1999 :: real) < exp (8365 / 1000)"
  by (rule exp_lower_pow[where x = "8365/10000" and k = 10 and L = "23/10"])
     (simp_all add: power_divide)

lemma exp_8485_lower: "(1999 :: real) < exp (8485 / 1000)"
  by (rule exp_lower_pow[where x = "8485/10000" and k = 10 and L = "23/10"])
     (simp_all add: power_divide)

lemma linear_predictor_all_factors: "linear_predictor all_factors (273 / 10) = 8365 / 1000"
  by (simp add: linear_predictor_spec spec_linear_predictor_def all_factors_def)

lemma linear_predictor_all_factors_100:
  "linear_predictor (all_factors\<lparr>age := 100\<rparr>) (273 / 10) = 8485 / 1000"
  by (simp add: linear_predictor_spec spec_linear_predictor_def all_factors_def)

lemma compute_all_factors:
  "compute_screening all_factors =
     Inr \<lparr>bmi = 273 / 10, screening_index = 100,
          interpretation_text = ''High (refer for DXA and specialist assessment).''\<rparr>"
proof -
  have "bmi_of (weight all_factors) (height_cm all_factors) = Inr (273 / 10)"
    using bmi_of_70_160 by (simp add: all_factors_def)
  moreover have "screening_index_of (linear_predictor all_factors (273 / 10)) = 100"
    by (simp only: linear_predictor_all_factors screening_index_of_100[OF exp_8365_lower])
  ultimately show ?thesis
    by (simp add: compute_screening_def interpretation_of_def Let_def)
qed

lemma compute_all_factors_100:
  "compute_screening (all_factors\<lparr>age := 100\<rparr>) =
     Inr \<lparr>bmi = 273 / 10, screening_index = 100,
          interpretation_text = ''High (refer for DXA and specialist assessment).''\<rparr>"
proof -
  have "bmi_of (weight (all_factors\<lparr>age := 100\<rparr>)) (height_cm (all_factors\<lparr>age := 100\<rparr>)) =
      Inr (273 / 10)"
    using bmi_of_70_160 by (simp add: all_factors_def)
  moreover have "screening_index_of (linear_predictor (all_factors\<lparr>age := 100\<rparr>) (273 / 10)) = 100"
    by (simp only: linear_predictor_all_factors_100 screening_index_of_100[OF exp_8485_lower])
  ultimately show ?thesis
    by (simp add: compute_screening_def interpretation_of_def Let_def)
qed

lemma compute_screening_age_mono:
  assumes "a \<le> a'"
    and "compute_screening (p\<lparr>age := a\<rparr>) = Inr r"
    and "compute_screening (p\<lparr>age := a'\<rparr>) = Inr r'"
  shows "bmi r = bmi r'" and "screening_index r \<le> screening_index r'"
proof -
  have "bmi_of (weight p) (height_cm p) = Inr (bmi r)"
    and "bmi_of (weight p) (height_cm p) = Inr (bmi r')"
    using compute_screening_InrD(1)[OF assms(2)] compute_screening_InrD(1)[OF assms(3)]
    by simp_all
  then show b: "bmi r = bmi r'" by simp
  have "linear_predictor (p\<lparr>age := a\<rparr>) (bmi r) \<le> linear_predictor (p\<lparr>age := a'\<rparr>) (bmi r)"
    using assms(1) linear_predictor_age_less[of a a' p "bmi r"] by (cases "a = a'") simp_all
  then show "screening_index r \<le> screening_index r'"
    unfolding compute_screening_InrD(2)[OF assms(2)] compute_screening_InrD(2)[OF assms(3)]
      b[symmetric]
    by (rule screening_index_of_mono)
qed

subsection \<open>The exported text\<close>

lemma digit_char_digit: "d < 10 \<Longrightarrow> digit_char d \<in> set ''0123456789''"
  unfolding digit_char_def by (rule nth_mem) simp

lemma show_nat_digits: "set (show_nat n) \<subseteq> set ''0123456789''"
proof (induction n rule: show_nat.induct)
  case (1 n)
  show ?case
  proof (cases "n < 10")
    case True
    then show ?thesis
      using digit_char_digit[of n] by (subst show_nat.simps) simp
  next
    case False
    have "n mod 10 < 10" by simp
    then have "digit_char (n mod 10) \<in> set ''0123456789''" by (rule digit_char_digit)
    with False 1 show ?thesis
      by (subst show_nat.simps) simp
  qed
qed

lemma needs_quote_iff: "needs_quote s \<longleftrightarrow> set s \<inter> set csv_special \<noteq> {}"
  by (auto simp: needs_quote_def list_ex_iff)

lemma plain_charsI:
  assumes "set s \<subseteq> A" and "A \<inter> set csv_special = {}"
  shows "\<not> needs_quote s"
  using assms unfolding needs_quote_iff by blast

lemma zfill_chars: "set (zfill k s) \<subseteq> insert CHR ''0'' (set s)"
  unfolding zfill_def by (cases "k - length s") auto

lemma digits_in_date_chars: "set ''0123456789'' \<subseteq> set ''0123456789-''"
  by (simp add: subset_insertI2)

lemma zfill_show_nat_chars: "set (zfill k (show_nat n)) \<subseteq> set ''0123456789-''"
proof -
  have "CHR ''0'' \<in> set ''0123456789-''" by simp
  moreover have "set (show_nat n) \<subseteq> set ''0123456789-''"
    using show_nat_digits digits_in_date_chars by (rule subset_trans)
  ultimately have "insert CHR ''0'' (set (show_nat n)) \<subseteq> set ''0123456789-''"
    by (rule insert_subsetI)
  with zfill_chars show ?thesis by (rule subset_trans)
qed

lemma isoformat_chars: "set (isoformat d) \<subseteq> set ''0123456789-''"
proof -
  have "CHR ''-'' \<in> set ''0123456789-''" by simp
  then have "set ''-'' \<subseteq> set ''0123456789-''" by (simp only: set_simps insert_subset empty_subsetI simp_thms)
  then show ?thesis
    unfolding isoformat_def set_append
    by (intro Un_least zfill_show_nat_chars)
qed

lemma date_chars_plain: "set ''0123456789-'' \<inter> set csv_special = {}"
  by (simp add: csv_special_def)

lemma isoformat_plain: "\<not> needs_quote (isoformat d)"
  using isoformat_chars date_chars_plain by (rule plain_charsI)

lemma sex_str_plain: "\<not> needs_quote (sex_str s)"
  by (cases s) (simp_all add: sex_str_def needs_quote_def csv_special_def)

lemma interpretation_of_plain: "\<not> needs_quote (interpretation_of x)"
  by (simp add: interpretation_of_def needs_quote_def csv_special_def)

lemma quote_minimal_plain: "\<not> needs_quote s \<Longrightarrow> quote_minimal s = s"
  by (simp add: quote_minimal_def)

lemma csv_header_user_data:
  "csv_header (user_data d p r) =
     ''date,age,sex,weight_kg,height_cm,bmi,femoral_neck_bmd,screening_index,interpretation''"
  by (simp add: csv_header_def user_data_def quote_minimal_def needs_quote_def csv_special_def)

lemma nrows_user_data: "nrows (user_data d p r) = 1"
  by (simp add: nrows_def user_data_def)

lemma csv_row_user_data:
  assumes "interpretation_text r = interpretation_of x"
  shows "csv_row fmt (user_data d p r) 0 =
      join_comma [isoformat d, show_int (age p), sex_str (sex p), fmt (weight p),
        fmt (height_cm p), fmt (bmi r), fmt (femoral_neck_bmd p), fmt (screening_index r),
        interpretation_text r]"
proof -
  have q: "quote_minimal (isoformat d) = isoformat d"
    "quote_minimal (sex_str (sex p)) = sex_str (sex p)"
    "quote_minimal (interpretation_text r) = interpretation_text r"
    unfolding assms
    by (rule quote_minimal_plain, rule isoformat_plain sex_str_plain interpretation_of_plain)+
  show ?thesis
    unfolding csv_row_def user_data_def
    by (simp add: csv_field_def q del: join_comma.simps)
qed

lemma csv_lines_user_data:
  assumes "interpretation_text r = interpretation_of x"
  shows "csv_lines fmt (user_data d p r) =
     [''date,age,sex,weight_kg,height_cm,bmi,femoral_neck_bmd,screening_index,interpretation'',
      join_comma [isoformat d, show_int (age p), sex_str (sex p), fmt (weight p),
        fmt (height_cm p), fmt (bmi r), fmt (femoral_neck_bmd p), fmt (screening_index r),
        interpretation_text r]]"
  unfolding csv_lines_def nrows_user_data csv_header_user_data
  by (simp add: csv_row_user_data[OF assms] del: join_comma.simps)


lemma DataFrame_user_data: "DataFrame (user_data d p r) = Inr (user_data d p r)"
  by (simp add: DataFrame_def user_data_def)

lemma on_submit_InrD:
  assumes "on_submit pf p = Inr s"
  shows "compute_screening p = Inr (result s)"
    and "frame s = user_data (today pf) p (result s)"
    and "data (csv_download s) = encode_utf8 (to_csv (float_repr pf) (linesep pf) (frame s))"
    and "file_name (csv_download s) = ''fracture_screening_result.csv''"
    and "mime (csv_download s) = ''text/csv''"
  using assms by (auto simp: on_submit_def DataFrame_user_data Let_def split: sum.splits)

lemma example_texts:
  "isoformat \<lparr>year = 2026, month = 3, day = 9\<rparr> = ''2026-03-09''"
  "show_int 65 = ''65''"
  "repr_tenths 70 = ''70.0''"
  "repr_tenths 160 = ''160.0''"
  "repr_tenths (273 / 10) = ''27.3''"
  "repr_tenths 0 = ''0.0''"
  "repr_tenths (42 / 10) = ''4.2''"
  by code_simp+

lemma encode_utf8_ascii: "is_ascii s \<Longrightarrow> encode_utf8 s = map of_char s"
  by (induction s) (simp_all add: is_ascii_def encode_utf8_def Let_def)

lemma encode_utf8_two_bytes: "encode_utf8 [CHR 0xE9] = [195, 169]"
  by (simp add: encode_utf8_def Let_def)

lemma is_ascii_append: "is_ascii (s @ t) \<longleftrightarrow> is_ascii s \<and> is_ascii t"
  by (simp add: is_ascii_def)

lemma is_ascii_subset: "set s \<subseteq> set t \<Longrightarrow> is_ascii t \<Longrightarrow> is_ascii s"
  unfolding is_ascii_def list_all_iff by blast

lemma is_ascii_float_chars: "is_ascii float_chars"
  by (simp add: is_ascii_def float_chars_def)

lemma is_ascii_date_chars: "is_ascii ''0123456789-''"
  by (simp add: is_ascii_def)

lemma is_ascii_header:
  "is_ascii ''date,age,sex,weight_kg,height_cm,bmi,femoral_neck_bmd,screening_index,interpretation''"
  by (simp add: is_ascii_def)

lemma is_ascii_interpretation: "is_ascii (interpretation_of x)"
  by (simp add: is_ascii_def interpretation_of_def)


lemma plain_iff:
  "\<not> needs_quote s \<longleftrightarrow>
     CHR '','' \<notin> set s \<and> CHR 0x22 \<notin> set s \<and> CHR 0x0A \<notin> set s \<and> CHR 0x0D \<notin> set s"
  by (auto simp: needs_quote_iff csv_special_def)

lemma show_int_chars: "set (show_int i) \<subseteq> set ''0123456789-''"
proof -
  have "set (show_nat n) \<subseteq> set ''0123456789-''" for n
    using show_nat_digits digits_in_date_chars by (rule subset_trans)
  moreover have "CHR ''-'' \<in> set ''0123456789-''" by simp
  ultimately show ?thesis
    unfolding show_int_def by (simp only: set_simps insert_subset split: if_split) blast
qed

lemma show_int_plain: "\<not> needs_quote (show_int i)"
  using show_int_chars date_chars_plain by (rule plain_charsI)

lemma float_chars_plain: "set float_chars \<inter> set csv_special = {}"
  by (simp add: float_chars_def csv_special_def)

lemma float_repr_plain: "platform_ok pf \<Longrightarrow> \<not> needs_quote (float_repr pf x)"
  by (rule plain_charsI[OF _ float_chars_plain]) (simp add: platform_ok_def)

lemma is_ascii_isoformat: "is_ascii (isoformat d)"
  using isoformat_chars is_ascii_date_chars by (rule is_ascii_subset)

lemma is_ascii_show_int: "is_ascii (show_int i)"
  using show_int_chars is_ascii_date_chars by (rule is_ascii_subset)

lemma is_ascii_sex_str: "is_ascii (sex_str s)"
  by (cases s) (simp_all add: sex_str_def is_ascii_def)

lemma is_ascii_float_repr: "platform_ok pf \<Longrightarrow> is_ascii (float_repr pf x)"
  by (rule is_ascii_subset[OF _ is_ascii_float_chars]) (simp add: platform_ok_def)

lemma is_ascii_linesep: "platform_ok pf \<Longrightarrow> is_ascii (linesep pf)"
  by (auto simp: platform_ok_def is_ascii_def)

lemma join_comma_count:
  "(\<And>f. f \<in> set fs \<Longrightarrow> CHR '','' \<notin> set f) \<Longrightarrow>
     count_list (join_comma fs) CHR '','' = length fs - 1"
proof (induction fs rule: join_comma.induct)
  case 1
  then show ?case by simp
next
  case (2 s)
  then show ?case by (simp add: count_list_0_iff)
next
  case (3 s t ss)
  have "count_list s CHR '','' = 0" using 3(2)[of s] by (simp add: count_list_0_iff)
  moreover have "count_list (join_comma (t # ss)) CHR '','' = length (t # ss) - 1"
    using 3 by simp
  ultimately show ?case by simp
qed

lemma join_comma_no_char:
  "c \<noteq> CHR '','' \<Longrightarrow> (\<And>f. f \<in> set fs \<Longrightarrow> c \<notin> set f) \<Longrightarrow> c \<notin> set (join_comma fs)"
  by (induction fs rule: join_comma.induct) simp_all

lemma is_ascii_join_comma:
  "(\<And>f. f \<in> set fs \<Longrightarrow> is_ascii f) \<Longrightarrow> is_ascii (join_comma fs)"
proof (induction fs rule: join_comma.induct)
  case 1
  then show ?case by (simp add: is_ascii_def)
next
  case (2 s)
  then show ?case by simp
next
  case (3 s t ss)
  have "is_ascii '',''" by (simp add: is_ascii_def)
  moreover have "is_ascii s" using 3(2) by simp
  moreover have "is_ascii (join_comma (t # ss))" using 3 by simp
  ultimately show ?case by (simp only: join_comma.simps is_ascii_append)
qed

lemma export_fields:
  assumes "platform_ok pf" and "interpretation_text r = interpretation_of x"
    and "f \<in> set [isoformat (today pf), show_int (age p), sex_str (sex p),
          float_repr pf (weight p), float_repr pf (height_cm p), float_repr pf (bmi r),
          float_repr pf (femoral_neck_bmd p), float_repr pf (screening_index r),
          interpretation_text r]"
  shows "\<not> needs_quote f" and "is_ascii f"
proof -
  note pl = isoformat_plain show_int_plain sex_str_plain float_repr_plain[OF assms(1)]
    interpretation_of_plain
  note as = is_ascii_isoformat is_ascii_show_int is_ascii_sex_str
    is_ascii_float_repr[OF assms(1)] is_ascii_interpretation
  from assms(3) have
    "f = isoformat (today pf) \<or> f = show_int (age p) \<or> f = sex_str (sex p) \<or>
     f = float_repr pf (weight p) \<or> f = float_repr pf (height_cm p) \<or>
     f = float_repr pf (bmi r) \<or> f = float_repr pf (femoral_neck_bmd p) \<or>
     f = float_repr pf (screening_index r) \<or> f = interpretation_of x"
    unfolding assms(2) by simp
  then show "\<not> needs_quote f" and "is_ascii f"
    using pl as by blast+
qed

lemma repr_tenths_chars: "repr_tenths x \<noteq> [] \<and> set (repr_tenths x) \<subseteq> set float_chars"
proof -
  have d: "set ''0123456789-'' \<subseteq> set float_chars" by (simp add: float_chars_def)
  have "set (show_int i) \<subseteq> set float_chars" for i
    using show_int_chars d by (rule subset_trans)
  moreover have "set (show_nat n) \<subseteq> set float_chars" for n
    using show_nat_digits digits_in_date_chars d by (blast intro: subset_trans)
  moreover have "set ''.'' \<subseteq> set float_chars" by (simp add: float_chars_def)
  ultimately show ?thesis
    unfolding repr_tenths_def set_append by (intro conjI Un_least) simp_all
qed

lemma platform_ok_example: "platform_ok example_platform"
  using repr_tenths_chars by (simp add: platform_ok_def example_platform_def)

section \<open>Properties of the screening computation\<close>

text \<open>
  C5. The two end-to-end reference vectors. Example 1 (age 65, female, 70 kg, 160 cm, no
  bone density, no risk factor) has body mass index 27.3, linear predictor -3.115,
  screening index 4.2 and the label "Low (screening only)."; example 2 (the same with a
  prior fracture and a parental hip fracture) has linear predictor -1.215, screening
  index 22.9 and the label "Moderate (consider referral for further assessment / DXA).".
\<close>

theorem reference_vectors:
  "bmi_of 70 160 = Inr (273 / 10) \<and>
   linear_predictor example1 (273 / 10) = - 3115 / 1000 \<and>
   compute_screening example1 =
     Inr \<lparr>bmi = 273 / 10, screening_index = 42 / 10,
          interpretation_text = ''Low (screening only).''\<rparr> \<and>
   linear_predictor example2 (273 / 10) = - 1215 / 1000 \<and>
   compute_screening example2 =
     Inr \<lparr>bmi = 273 / 10, screening_index = 229 / 10,
          interpretation_text = ''Moderate (consider referral for further assessment / DXA).''\<rparr>"
  by (intro conjI bmi_of_70_160 linear_predictor_example1 compute_example1
      linear_predictor_example2 compute_example2)

text \<open>
  C1. For every input within the declared domains the computation succeeds. Its linear
  predictor is the baseline -6.0 plus the contributions of the specification's table
  (\<open>spec_linear_predictor\<close>): 0.12 per year of age above 40, -0.10 for a male,
  -0.05 per unit of body mass index above 25, the nine weights of the risk factors that
  are present, and -2.5 per unit of bone density above 0.7 when the bone density is
  above 0.0. The body mass index in it is the one rounded to one decimal: a whole number
  of tenths nearest to the quotient of line 56, the even one at a tie. The screening
  index is 100 times the logistic transform of the predictor rounded in the same way.
\<close>

theorem linear_predictor_formula:
  assumes "in_domain p"
  shows "\<exists>r q. compute_screening p = Inr r \<and>
           bmi_unrounded (weight p) (height_cm p) = Inr q \<and>
           (\<exists>k::int. bmi r = of_int k / 10 \<and> \<bar>bmi r - q\<bar> \<le> 1 / 20 \<and>
              (\<bar>bmi r - q\<bar> = 1 / 20 \<longrightarrow> even k)) \<and>
           linear_predictor p (bmi r) = spec_linear_predictor p (bmi r) \<and>
           (\<exists>k::int. screening_index r = of_int k / 10 \<and>
              \<bar>screening_index r -
                100 * (1 / (1 + exp (- spec_linear_predictor p (bmi r))))\<bar> \<le> 1 / 20 \<and>
              (\<bar>screening_index r -
                100 * (1 / (1 + exp (- spec_linear_predictor p (bmi r))))\<bar> = 1 / 20 \<longrightarrow>
               even k))"
proof -
  have h: "height_cm p \<noteq> 0" using assms by (rule in_domain_height)
  let ?q = "fl (weight p / fl ((fl (height_cm p / 100))\<^sup>2))"
  let ?b = "py_round1 ?q"
  let ?x = "100 * (1 / (1 + exp (- spec_linear_predictor p ?b)))"
  have si: "screening_index_of (linear_predictor p ?b) = py_round1 ?x"
    by (simp add: linear_predictor_spec screening_index_of_def prob_like_of_def)
  show ?thesis
    unfolding compute_screening_Inr[OF h] bmi_unrounded_Inr[OF h] si
    using py_round1_nearest[of ?q] py_round1_nearest[of ?x] linear_predictor_spec[of p ?b]
    by simp
qed

theorem linear_predictor_formula_witness:
  "in_domain example1 \<and>
   (\<exists>r q. compute_screening example1 = Inr r \<and>
      bmi_unrounded (weight example1) (height_cm example1) = Inr q \<and>
      (\<exists>k::int. bmi r = of_int k / 10 \<and> \<bar>bmi r - q\<bar> \<le> 1 / 20 \<and>
         (\<bar>bmi r - q\<bar> = 1 / 20 \<longrightarrow> even k)) \<and>
      linear_predictor example1 (bmi r) = spec_linear_predictor example1 (bmi r) \<and>
      (\<exists>k::int. screening_index r = of_int k / 10 \<and>
         \<bar>screening_index r -
           100 * (1 / (1 + exp (- spec_linear_predictor example1 (bmi r))))\<bar> \<le> 1 / 20 \<and>
         (\<bar>screening_index r -
           100 * (1 / (1 + exp (- spec_linear_predictor example1 (bmi r))))\<bar> = 1 / 20 \<longrightarrow>
          even k)))"
  using in_domain_example1 linear_predictor_formula[OF in_domain_example1] by (rule conjI)

text \<open>
  C4. With \<open>femoral_neck_bmd = 0.0\<close> the bone density term adds nothing: the linear
  predictor is the score of the other risk factors, whatever they are, and that score
  does not read the bone density. With a value above \<open>0.0\<close> the term
  \<open>-2.5 * (femoral_neck_bmd - 0.7)\<close> is added.
\<close>

theorem bmd_sentinel:
  "linear_predictor (p\<lparr>femoral_neck_bmd := 0\<rparr>) b = score_risk_factors p b \<and>
   (0 < x \<longrightarrow>
      linear_predictor (p\<lparr>femoral_neck_bmd := x\<rparr>) b =
        score_risk_factors p b + (- 2.5) * (x - 0.7))"
  by (simp add: linear_predictor_split score_risk_factors_bmd_update BMD_WEIGHT_def)

theorem bmd_sentinel_witness:
  "(0 :: real) < 1 / 2 \<and>
   linear_predictor (example1\<lparr>femoral_neck_bmd := 0\<rparr>) (273 / 10) =
     score_risk_factors example1 (273 / 10) \<and>
   linear_predictor (example1\<lparr>femoral_neck_bmd := 1 / 2\<rparr>) (273 / 10) =
     score_risk_factors example1 (273 / 10) + (- 2.5) * (1 / 2 - 0.7)"
  using bmd_sentinel[of example1 "273 / 10" "1 / 2"] by simp

text \<open>
  C10. The guard of line 112 asks for a truthy and positive value, which holds exactly
  when the value is above \<open>0.0\<close>; the bone density term is added exactly then, so every
  value at or below \<open>0.0\<close> leaves the score of the other risk factors unchanged.
\<close>

theorem bmd_term_iff_positive:
  "(bmd_guard x \<longleftrightarrow> truthy x \<and> 0 < x) \<and>
   (bmd_guard x \<longleftrightarrow> 0 < x) \<and>
   linear_predictor p b =
     (if 0 < femoral_neck_bmd p
      then score_risk_factors p b + BMD_WEIGHT * (femoral_neck_bmd p - 0.7)
      else score_risk_factors p b) \<and>
   (femoral_neck_bmd p \<le> 0 \<longrightarrow> linear_predictor p b = score_risk_factors p b)"
  by (simp add: linear_predictor_split bmd_guard_iff) (auto simp: truthy_def)

theorem bmd_term_iff_positive_witness:
  "femoral_neck_bmd (example1\<lparr>femoral_neck_bmd := - 1\<rparr>) \<le> 0 \<and>
   \<not> bmd_guard (- 1) \<and>
   linear_predictor (example1\<lparr>femoral_neck_bmd := - 1\<rparr>) (273 / 10) =
     score_risk_factors (example1\<lparr>femoral_neck_bmd := - 1\<rparr>) (273 / 10)"
  using bmd_term_iff_positive[of "- 1" "example1\<lparr>femoral_neck_bmd := - 1\<rparr>" "273 / 10"]
  by simp

text \<open>
  C2. The label of a result is fixed by its rounded screening index through half-open
  bands: below 10 "Low", from 10 to below 20 "Mild", from 20 to below 35 "Moderate",
  from 35 on "High". So 10.0, 20.0 and 35.0 give "Mild", "Moderate" and "High", 9.9
  gives "Low" and 34.9 gives "Moderate".
\<close>

theorem interpretation_bands:
  assumes "compute_screening p = Inr r"
  shows
    "(interpretation_text r = ''Low (screening only).'' \<longleftrightarrow> screening_index r < 10) \<and>
     (interpretation_text r = ''Mild (consider bone densitometry if other concerns).'' \<longleftrightarrow>
        10 \<le> screening_index r \<and> screening_index r < 20) \<and>
     (interpretation_text r = ''Moderate (consider referral for further assessment / DXA).'' \<longleftrightarrow>
        20 \<le> screening_index r \<and> screening_index r < 35) \<and>
     (interpretation_text r = ''High (refer for DXA and specialist assessment).'' \<longleftrightarrow>
        35 \<le> screening_index r) \<and>
     interpretation_of 10 = ''Mild (consider bone densitometry if other concerns).'' \<and>
     interpretation_of 20 = ''Moderate (consider referral for further assessment / DXA).'' \<and>
     interpretation_of 35 = ''High (refer for DXA and specialist assessment).'' \<and>
     interpretation_of (99 / 10) = ''Low (screening only).'' \<and>
     interpretation_of (349 / 10) = ''Moderate (consider referral for further assessment / DXA).''"
  unfolding compute_screening_InrD(3)[OF assms]
  by (simp add: interpretation_of_def)

theorem interpretation_bands_witness:
  "compute_screening example1 =
     Inr \<lparr>bmi = 273 / 10, screening_index = 42 / 10,
          interpretation_text = ''Low (screening only).''\<rparr> \<and>
   (42 / 10 :: real) < 10 \<and>
   interpretation_of (42 / 10) = ''Low (screening only).''"
  using interpretation_bands[OF compute_example1] compute_example1
  by (simp add: interpretation_of_def)

text \<open>
  C8. For every input within the declared domains the computation succeeds, and its
  screening index lies between 0 and 100 and is a whole number of tenths.
\<close>

theorem screening_index_range:
  assumes "in_domain p"
  shows "\<exists>r. compute_screening p = Inr r \<and>
           0 \<le> screening_index r \<and> screening_index r \<le> 100 \<and>
           (\<exists>k::int. screening_index r = of_int k / 10)"
  unfolding compute_screening_Inr[OF in_domain_height[OF assms]]
  using screening_index_of_range screening_index_of_tenths by simp

theorem screening_index_range_witness:
  "in_domain example1 \<and>
   (\<exists>r. compute_screening example1 = Inr r \<and>
        0 \<le> screening_index r \<and> screening_index r \<le> 100 \<and>
        (\<exists>k::int. screening_index r = of_int k / 10))"
  using in_domain_example1 screening_index_range[OF in_domain_example1] by (rule conjI)



text \<open>
  C6 (as amended). Holding the other inputs fixed: a higher age gives a strictly higher
  linear predictor and a strictly higher logistic value, and a screening index that is at
  least as high; a higher bone density among values above 0 gives a strictly lower
  linear predictor; and each of the nine risk factors, switched from false to true,
  gives a strictly higher linear predictor.
\<close>

theorem monotonicity:
  "(a < a' \<longrightarrow>
      linear_predictor (p\<lparr>age := a\<rparr>) b < linear_predictor (p\<lparr>age := a'\<rparr>) b \<and>
      prob_like_of (linear_predictor (p\<lparr>age := a\<rparr>) b) <
        prob_like_of (linear_predictor (p\<lparr>age := a'\<rparr>) b)) \<and>
   (a \<le> a' \<and> compute_screening (p\<lparr>age := a\<rparr>) = Inr r \<and>
      compute_screening (p\<lparr>age := a'\<rparr>) = Inr r' \<longrightarrow>
      screening_index r \<le> screening_index r') \<and>
   (0 < x \<and> x < x' \<longrightarrow>
      linear_predictor (p\<lparr>femoral_neck_bmd := x'\<rparr>) b <
      linear_predictor (p\<lparr>femoral_neck_bmd := x\<rparr>) b) \<and>
   linear_predictor (p\<lparr>prior_fracture := False\<rparr>) b <
     linear_predictor (p\<lparr>prior_fracture := True\<rparr>) b \<and>
   linear_predictor (p\<lparr>parent_hip := False\<rparr>) b <
     linear_predictor (p\<lparr>parent_hip := True\<rparr>) b \<and>
   linear_predictor (p\<lparr>current_smoker := False\<rparr>) b <
     linear_predictor (p\<lparr>current_smoker := True\<rparr>) b \<and>
   linear_predictor (p\<lparr>glucocorticoids := False\<rparr>) b <
     linear_predictor (p\<lparr>glucocorticoids := True\<rparr>) b \<and>
   linear_predictor (p\<lparr>rheumatoid := False\<rparr>) b <
     linear_predictor (p\<lparr>rheumatoid := True\<rparr>) b \<and>
   linear_predictor (p\<lparr>secondary_osteoporosis := False\<rparr>) b <
     linear_predictor (p\<lparr>secondary_osteoporosis := True\<rparr>) b \<and>
   linear_predictor (p\<lparr>alcohol_3_more := False\<rparr>) b <
     linear_predictor (p\<lparr>alcohol_3_more := True\<rparr>) b \<and>
   linear_predictor (p\<lparr>fall_in_last_year := False\<rparr>) b <
     linear_predictor (p\<lparr>fall_in_last_year := True\<rparr>) b \<and>
   linear_predictor (p\<lparr>immobility := False\<rparr>) b <
     linear_predictor (p\<lparr>immobility := True\<rparr>) b"
proof (intro conjI impI)
  assume "a < a'"
  then show "linear_predictor (p\<lparr>age := a\<rparr>) b < linear_predictor (p\<lparr>age := a'\<rparr>) b"
    by (rule linear_predictor_age_less)
  then show "prob_like_of (linear_predictor (p\<lparr>age := a\<rparr>) b) <
      prob_like_of (linear_predictor (p\<lparr>age := a'\<rparr>) b)"
    by (rule prob_like_of_less)
next
  assume "a \<le> a' \<and> compute_screening (p\<lparr>age := a\<rparr>) = Inr r \<and>
      compute_screening (p\<lparr>age := a'\<rparr>) = Inr r'"
  then show "screening_index r \<le> screening_index r'"
    using compute_screening_age_mono(2)[of a a' p r r'] by blast
next
  assume "0 < x \<and> x < x'"
  then show "linear_predictor (p\<lparr>femoral_neck_bmd := x'\<rparr>) b <
      linear_predictor (p\<lparr>femoral_neck_bmd := x\<rparr>) b"
    using linear_predictor_bmd_less[of x x' p b] by blast
qed (rule linear_predictor_flags)+

theorem monotonicity_witness:
  "(99 :: int) < 100 \<and>
   linear_predictor (all_factors\<lparr>age := 99\<rparr>) (273 / 10) <
     linear_predictor (all_factors\<lparr>age := 100\<rparr>) (273 / 10) \<and>
   compute_screening (all_factors\<lparr>age := 99\<rparr>) =
     Inr \<lparr>bmi = 273 / 10, screening_index = 100,
          interpretation_text = ''High (refer for DXA and specialist assessment).''\<rparr> \<and>
   compute_screening (all_factors\<lparr>age := 100\<rparr>) =
     Inr \<lparr>bmi = 273 / 10, screening_index = 100,
          interpretation_text = ''High (refer for DXA and specialist assessment).''\<rparr> \<and>
   (100 :: real) \<le> 100 \<and>
   (0 :: real) < 1 / 2 \<and> (1 / 2 :: real) < 1 \<and>
   linear_predictor (example1\<lparr>femoral_neck_bmd := 1\<rparr>) (273 / 10) <
     linear_predictor (example1\<lparr>femoral_neck_bmd := 1 / 2\<rparr>) (273 / 10)"
proof -
  have e: "all_factors\<lparr>age := 99\<rparr> = all_factors" by (simp add: all_factors_def)
  note m = monotonicity[of 99 100 all_factors "273 / 10" _ _ "1 / 2" 1]
  note n = monotonicity[of 99 100 example1 "273 / 10" _ _ "1 / 2" 1]
  have "linear_predictor (all_factors\<lparr>age := 99\<rparr>) (273 / 10) <
      linear_predictor (all_factors\<lparr>age := 100\<rparr>) (273 / 10)"
    using m by simp
  moreover have "linear_predictor (example1\<lparr>femoral_neck_bmd := 1\<rparr>) (273 / 10) <
      linear_predictor (example1\<lparr>femoral_neck_bmd := 1 / 2\<rparr>) (273 / 10)"
    using n by simp
  ultimately show ?thesis
    using compute_all_factors compute_all_factors_100 by (simp add: e)
qed

text \<open>
  C6 (as stated) fails for the screening index, which is rounded to one decimal and so
  is not strictly increasing in age: with all nine risk factors present, 70 kg and
  160 cm, ages 99 and 100 both give the index 100.0.
\<close>

theorem age_index_not_strict_counterexample:
  "age all_factors = 99 \<and>
   compute_screening all_factors =
     Inr \<lparr>bmi = 273 / 10, screening_index = 100,
          interpretation_text = ''High (refer for DXA and specialist assessment).''\<rparr> \<and>
   compute_screening (all_factors\<lparr>age := 100\<rparr>) =
     Inr \<lparr>bmi = 273 / 10, screening_index = 100,
          interpretation_text = ''High (refer for DXA and specialist assessment).''\<rparr>"
  using compute_all_factors compute_all_factors_100 by (simp add: all_factors_def)

text \<open>
  C9. The export of a submission is a data frame with the columns date, age, sex,
  weight_kg, height_cm, bmi, femoral_neck_bmd, screening_index, interpretation in this
  order, one value each. On a platform whose line terminator is LF or CR LF and whose
  float text is numeric, its CSV text is the header line of these names followed by
  exactly one data line: the nine values in the same order, separated by eight commas,
  with no quote and no line break inside. The downloaded bytes are the UTF-8 encoding of
  that text, which is one byte below 128 for each character. The file name is
  \<open>fracture_screening_result.csv\<close> and the MIME type \<open>text/csv\<close>.
\<close>

theorem csv_export:
  assumes "on_submit pf p = Inr s" and "platform_ok pf"
  shows
    "map fst (frame s) =
       [''date'', ''age'', ''sex'', ''weight_kg'', ''height_cm'', ''bmi'', ''femoral_neck_bmd'',
        ''screening_index'', ''interpretation''] \<and>
     list_all (\<lambda>c. length (snd c) = 1) (frame s) \<and>
     (\<exists>row.
        row = join_comma [isoformat (today pf), show_int (age p), sex_str (sex p),
          float_repr pf (weight p), float_repr pf (height_cm p), float_repr pf (bmi (result s)),
          float_repr pf (femoral_neck_bmd p), float_repr pf (screening_index (result s)),
          interpretation_text (result s)] \<and>
        csv_lines (float_repr pf) (frame s) = [''date,age,sex,weight_kg,height_cm,bmi,femoral_neck_bmd,screening_index,interpretation'', row] \<and>
        count_list row CHR '','' = 8 \<and>
        CHR 0x0A \<notin> set row \<and> CHR 0x0D \<notin> set row \<and> CHR 0x22 \<notin> set row \<and>
        data (csv_download s) = map of_char (''date,age,sex,weight_kg,height_cm,bmi,femoral_neck_bmd,screening_index,interpretation'' @ linesep pf @ row @ linesep pf)) \<and>
     list_all (\<lambda>b. b < 128) (data (csv_download s)) \<and>
     file_name (csv_download s) = ''fracture_screening_result.csv'' \<and>
     mime (csv_download s) = ''text/csv''"
proof -
  note d = on_submit_InrD[OF assms(1)]
  note i = compute_screening_InrD(3)[OF d(1)]
  let ?F = "[isoformat (today pf), show_int (age p), sex_str (sex p),
          float_repr pf (weight p), float_repr pf (height_cm p), float_repr pf (bmi (result s)),
          float_repr pf (femoral_neck_bmd p), float_repr pf (screening_index (result s)),
          interpretation_text (result s)]"
  let ?row = "join_comma ?F"
  let ?text = "''date,age,sex,weight_kg,height_cm,bmi,femoral_neck_bmd,screening_index,interpretation'' @ linesep pf @ ?row @ linesep pf"
  note f = export_fields[OF assms(2) i, of _ p]
  have 1: "map fst (frame s) =
       [''date'', ''age'', ''sex'', ''weight_kg'', ''height_cm'', ''bmi'', ''femoral_neck_bmd'',
        ''screening_index'', ''interpretation'']"
    unfolding d(2) by (simp add: user_data_def)
  have 2: "list_all (\<lambda>c. length (snd c) = 1) (frame s)"
    unfolding d(2) by (simp add: user_data_def)
  have 3: "csv_lines (float_repr pf) (frame s) = [''date,age,sex,weight_kg,height_cm,bmi,femoral_neck_bmd,screening_index,interpretation'', ?row]"
    unfolding d(2) by (rule csv_lines_user_data[OF i])
  have comma: "CHR '','' \<notin> set g" and quote: "CHR 0x22 \<notin> set g"
    and lf: "CHR 0x0A \<notin> set g" and cr: "CHR 0x0D \<notin> set g" if "g \<in> set ?F" for g
    using f(1)[OF that] unfolding plain_iff by simp_all
  have "count_list ?row CHR '','' = length ?F - 1"
    using comma by (rule join_comma_count)
  then have 4: "count_list ?row CHR '','' = 8" by simp
  have 5: "CHR 0x0A \<notin> set ?row" "CHR 0x0D \<notin> set ?row" "CHR 0x22 \<notin> set ?row"
    using lf cr quote by (intro join_comma_no_char; simp)+
  have t: "to_csv (float_repr pf) (linesep pf) (frame s) = ?text"
    unfolding to_csv_def 3 by (simp del: join_comma.simps)
  have "is_ascii ?row" using f(2) by (rule is_ascii_join_comma)
  then have a: "is_ascii ?text"
    using is_ascii_header is_ascii_linesep[OF assms(2)] by (simp only: is_ascii_append)
  have 6: "data (csv_download s) = map of_char ?text"
    unfolding d(3) t using a by (rule encode_utf8_ascii)
  have 7: "list_all (\<lambda>b. b < 128) (data (csv_download s))"
    unfolding 6 using a by (simp only: is_ascii_def list.pred_map comp_def)
  from 3 4 5 6 have "\<exists>row. row = ?row \<and>
        csv_lines (float_repr pf) (frame s) = [''date,age,sex,weight_kg,height_cm,bmi,femoral_neck_bmd,screening_index,interpretation'', row] \<and>
        count_list row CHR '','' = 8 \<and>
        CHR 0x0A \<notin> set row \<and> CHR 0x0D \<notin> set row \<and> CHR 0x22 \<notin> set row \<and>
        data (csv_download s) = map of_char (''date,age,sex,weight_kg,height_cm,bmi,femoral_neck_bmd,screening_index,interpretation'' @ linesep pf @ row @ linesep pf)"
    by blast
  with 1 2 7 d(4) d(5) show ?thesis by (intro conjI)
qed

theorem csv_export_witness:
  "platform_ok example_platform \<and>
   (\<exists>s. on_submit example_platform example1 = Inr s \<and>
     csv_lines repr_tenths (frame s) =
       [''date,age,sex,weight_kg,height_cm,bmi,femoral_neck_bmd,screening_index,interpretation'',
        ''2026-03-09,65,Female,70.0,160.0,27.3,0.0,4.2,Low (screening only).''] \<and>
     data (csv_download s) =
       [100, 97, 116, 101, 44, 97, 103, 101, 44, 115, 101, 120, 44, 119, 101, 105, 103,
        104, 116, 95, 107, 103, 44, 104, 101, 105, 103, 104, 116, 95, 99, 109, 44, 98,
        109, 105, 44, 102, 101, 109, 111, 114, 97, 108, 95, 110, 101, 99, 107, 95, 98,
        109, 100, 44, 115, 99, 114, 101, 101, 110, 105, 110, 103, 95, 105, 110, 100,
        101, 120, 44, 105, 110, 116, 101, 114, 112, 114, 101, 116, 97, 116, 105, 111,
        110, 10, 50, 48, 50, 54, 45, 48, 51, 45, 48, 57, 44, 54, 53, 44, 70, 101, 109,
        97, 108, 101, 44, 55, 48, 46, 48, 44, 49, 54, 48, 46, 48, 44, 50, 55, 46, 51,
        44, 48, 46, 48, 44, 52, 46, 50, 44, 76, 111, 119, 32, 40, 115, 99, 114, 101,
        101, 110, 105, 110, 103, 32, 111, 110, 108, 121, 41, 46, 10] \<and>
     file_name (csv_download s) = ''fracture_screening_result.csv'' \<and>
     mime (csv_download s) = ''text/csv'')"
proof -
  have "\<exists>s. on_submit example_platform example1 = Inr s"
    by (simp add: on_submit_def compute_example1 DataFrame_user_data Let_def)
  then obtain s where os: "on_submit example_platform example1 = Inr s" ..
  note t = csv_export[OF os platform_ok_example]
  have r: "result s = \<lparr>bmi = 273 / 10, screening_index = 42 / 10,
      interpretation_text = ''Low (screening only).''\<rparr>"
    using on_submit_InrD(1)[OF os] compute_example1 by simp
  have pf: "float_repr example_platform = repr_tenths"
    "today example_platform = \<lparr>year = 2026, month = 3, day = 9\<rparr>"
    "linesep example_platform = [CHR 0x0A]"
    by (simp_all add: example_platform_def)
  have ex: "age example1 = 65" "sex example1 = Female" "weight example1 = 70"
    "height_cm example1 = 160" "femoral_neck_bmd example1 = 0"
    by (simp_all add: example1_def)
  have row: "join_comma [isoformat (today example_platform), show_int (age example1),
      sex_str (sex example1), repr_tenths (weight example1),
      repr_tenths (height_cm example1),
      repr_tenths (bmi (result s)),
      repr_tenths (femoral_neck_bmd example1),
      repr_tenths (screening_index (result s)),
      interpretation_text (result s)] =
      ''2026-03-09,65,Female,70.0,160.0,27.3,0.0,4.2,Low (screening only).''"
    unfolding r pf ex screening_result.simps example_texts
    by (simp add: sex_str_def)
  from t[unfolded pf(1), unfolded row] obtain rw where
    rw: "rw = ''2026-03-09,65,Female,70.0,160.0,27.3,0.0,4.2,Low (screening only).''"
    and l: "csv_lines repr_tenths (frame s) = [''date,age,sex,weight_kg,height_cm,bmi,femoral_neck_bmd,screening_index,interpretation'', rw]"
    and dt: "data (csv_download s) =
      map of_char (''date,age,sex,weight_kg,height_cm,bmi,femoral_neck_bmd,screening_index,interpretation'' @ linesep example_platform @ rw @ linesep example_platform)"
    by blast
  have 1: "csv_lines repr_tenths (frame s) =
       [''date,age,sex,weight_kg,height_cm,bmi,femoral_neck_bmd,screening_index,interpretation'',
        ''2026-03-09,65,Female,70.0,160.0,27.3,0.0,4.2,Low (screening only).'']"
    using l unfolding rw .
  have 2: "data (csv_download s) =
       [100, 97, 116, 101, 44, 97, 103, 101, 44, 115, 101, 120, 44, 119, 101, 105, 103,
        104, 116, 95, 107, 103, 44, 104, 101, 105, 103, 104, 116, 95, 99, 109, 44, 98,
        109, 105, 44, 102, 101, 109, 111, 114, 97, 108, 95, 110, 101, 99, 107, 95, 98,
        109, 100, 44, 115, 99, 114, 101, 101, 110, 105, 110, 103, 95, 105, 110, 100,
        101, 120, 44, 105, 110, 116, 101, 114, 112, 114, 101, 116, 97, 116, 105, 111,
        110, 10, 50, 48, 50, 54, 45, 48, 51, 45, 48, 57, 44, 54, 53, 44, 70, 101, 109,
        97, 108, 101, 44, 55, 48, 46, 48, 44, 49, 54, 48, 46, 48, 44, 50, 55, 46, 51,
        44, 48, 46, 48, 44, 52, 46, 50, 44, 76, 111, 119, 32, 40, 115, 99, 114, 101,
        101, 110, 105, 110, 103, 32, 111, 110, 108, 121, 41, 46, 10]"
    unfolding dt rw pf(3) by simp
  have 3: "file_name (csv_download s) = ''fracture_screening_result.csv''"
    using t by (elim conjE)
  have 4: "mime (csv_download s) = ''text/csv''"
    using t by (elim conjE)
  from os 1 2 3 4 have "\<exists>s. on_submit example_platform example1 = Inr s \<and>
     csv_lines repr_tenths (frame s) =
       [''date,age,sex,weight_kg,height_cm,bmi,femoral_neck_bmd,screening_index,interpretation'',
        ''2026-03-09,65,Female,70.0,160.0,27.3,0.0,4.2,Low (screening only).''] \<and>
     data (csv_download s) =
       [100, 97, 116, 101, 44, 97, 103, 101, 44, 115, 101, 120, 44, 119, 101, 105, 103,
        104, 116, 95, 107, 103, 44, 104, 101, 105, 103, 104, 116, 95, 99, 109, 44, 98,
        109, 105, 44, 102, 101, 109, 111, 114, 97, 108, 95, 110, 101, 99, 107, 95, 98,
        109, 100, 44, 115, 99, 114, 101, 101, 110, 105, 110, 103, 95, 105, 110, 100,
        101, 120, 44, 105, 110, 116, 101, 114, 112, 114, 101, 116, 97, 116, 105, 111,
        110, 10, 50, 48, 50, 54, 45, 48, 51, 45, 48, 57, 44, 54, 53, 44, 70, 101, 109,
        97, 108, 101, 44, 55, 48, 46, 48, 44, 49, 54, 48, 46, 48, 44, 50, 55, 46, 51,
        44, 48, 46, 48, 44, 52, 46, 50, 44, 76, 111, 119, 32, 40, 115, 99, 114, 101,
        101, 110, 105, 110, 103, 32, 111, 110, 108, 121, 41, 46, 10] \<and>
     file_name (csv_download s) = ''fracture_screening_result.csv'' \<and>
     mime (csv_download s) = ''text/csv''"
    by blast
  with platform_ok_example show ?thesis by (rule conjI)
qed

end
